theory Spec2Isabelle
  imports Main
begin

section \<open>Errors\<close>

text \<open>
  Errors that come out of the operating system and of the libraries the program calls
  (os, flock, yaml, helm's repo and action packages, net/url, net/http). The program
  only ever tests them with \<open>os.IsExist\<close> and \<open>os.IsNotExist\<close>, so two of
  them are named and every other one is opaque.
\<close>

datatype ext_error = ErrNotExist | ErrExist | ErrOther string

definition os_IsExist :: "ext_error \<Rightarrow> bool" where
  "os_IsExist e = (e = ErrExist)"

definition os_IsNotExist :: "ext_error \<Rightarrow> bool" where
  "os_IsNotExist e = (e = ErrNotExist)"

text \<open>
  The error values the program returns: a library error handed on as it is, a library
  error wrapped by \<open>errors.Wrapf\<close> (cause and message), or one wrapped by
  \<open>fmt.Errorf\<close> with the verb \<open>%w\<close> (prefix and cause).
\<close>

datatype error =
    External ext_error
  | WithMessage error string
  | Errorf string error

fun ext_text :: "ext_error \<Rightarrow> string" where
  "ext_text ErrNotExist = ''file does not exist''"
| "ext_text ErrExist = ''file already exists''"
| "ext_text (ErrOther s) = s"

text \<open>The text of \<open>err.Error()\<close>.\<close>

fun Error_text :: "error \<Rightarrow> string" where
  "Error_text (External e) = ext_text e"
| "Error_text (WithMessage cause msg) = msg @ '': '' @ Error_text cause"
| "Error_text (Errorf prefix cause) = prefix @ Error_text cause"

text \<open>The cause of a wrapped error, as \<open>errors.Cause\<close> and \<open>errors.Unwrap\<close> reach it.\<close>

fun Unwrap :: "error \<Rightarrow> error option" where
  "Unwrap (External e) = None"
| "Unwrap (WithMessage cause msg) = Some cause"
| "Unwrap (Errorf prefix cause) = Some cause"

section \<open>Data\<close>

text \<open>The \<open>Helm\<close> struct of \<open>pkg/helm/helm.go\<close>.\<close>

record Helm =
  ReleaseName :: string
  Namespace :: string
  Values :: "string list"
  RepoName :: string
  ChartName :: string
  RepoURL :: string
  Version :: string

text \<open>
  helm's \<open>repo.Entry\<close> and \<open>repo.File\<close> (package \<open>helm.sh/helm/v3/pkg/repo\<close>).
  \<open>repoAdd\<close> fills in the name and the URL of an entry and nothing else, so the
  credential and TLS fields of an entry are left out.
\<close>

record Entry =
  Name :: string
  URL :: string

record File =
  APIVersion :: string
  Generated :: string
  Repositories :: "Entry list"

text \<open>\<open>var f repo.File\<close>: the zero value.\<close>

definition zero_File :: File where
  "zero_File = \<lparr>APIVersion = [], Generated = [], Repositories = []\<rparr>"

text \<open>
  \<open>File.Get\<close> returns the first entry with the given name, \<open>File.Has\<close> says
  whether there is one, and \<open>File.Update\<close> replaces the first entry that has the name
  of the new one, or appends the new one when no entry has it.
\<close>

definition Get :: "File \<Rightarrow> string \<Rightarrow> Entry option" where
  "Get f name = find (\<lambda>e. Name e = name) (Repositories f)"

definition Has :: "File \<Rightarrow> string \<Rightarrow> bool" where
  "Has f name = (Get f name \<noteq> None)"

fun update_entries :: "Entry list \<Rightarrow> Entry \<Rightarrow> Entry list" where
  "update_entries [] e = [e]"
| "update_entries (r # rs) e =
     (if Name r = Name e then e # rs else r # update_entries rs e)"

definition Update :: "File \<Rightarrow> Entry \<Rightarrow> File" where
  "Update f e = f\<lparr>Repositories := update_entries (Repositories f) e\<rparr>"

section \<open>The environment and the state\<close>

text \<open>
  What the calls into the operating system and the libraries answer. Each field is the
  outcome of one call of \<open>repoAdd\<close>:
  \<^item> \<open>mkdir_all\<close>: the error of \<open>os.MkdirAll\<close>;
  \<^item> \<open>try_lock_context\<close>: the pair \<open>(locked, err)\<close> of \<open>TryLockContext\<close>;
  \<^item> \<open>read_fault\<close>: an error of \<open>os.ReadFile\<close> that does not come from the
    state of the index file (permission denied, an I/O error);
  \<^item> \<open>yaml_unmarshal\<close>, \<open>yaml_marshal\<close>: the YAML codec on \<open>repo.File\<close>;
  \<^item> \<open>new_chart_repository\<close>: the error of \<open>repo.NewChartRepository\<close>;
  \<^item> \<open>download_index_file\<close>: the transport error of \<open>DownloadIndexFile\<close>;
  \<^item> \<open>write_fault\<close>: the error of writing the index file; a failed write leaves
    the file as it was;
  \<^item> \<open>quote\<close>: how the verb \<open>%q\<close> prints a string (\<open>strconv.Quote\<close>).
\<close>

record env =
  mkdir_all :: "ext_error option"
  try_lock_context :: "bool \<times> ext_error option"
  read_fault :: "ext_error option"
  yaml_unmarshal :: "string \<Rightarrow> ext_error + File"
  yaml_marshal :: "File \<Rightarrow> ext_error + string"
  new_chart_repository :: "Entry \<Rightarrow> ext_error option"
  download_index_file :: "Entry \<Rightarrow> ext_error option"
  write_fault :: "ext_error option"
  quote :: "string \<Rightarrow> string"

text \<open>
  \<open>time.Duration\<close> counts nanoseconds in an \<open>int64\<close>; the durations of the
  program are constants far from its bounds.
\<close>

type_synonym Duration = int

definition Second :: Duration where
  "Second = 1000000000"


text \<open>
  The fields of helm's \<open>action.Install\<close>, \<open>action.Upgrade\<close> and
  \<open>action.Uninstall\<close> that the program assigns. The three structs share field names
  in Go; here each field carries the prefix of its struct. \<open>NewInstall\<close>,
  \<open>NewUpgrade\<close> and \<open>NewUninstall\<close> leave all of them at their zero value.
\<close>

record Install =
  inst_ReleaseName :: string
  inst_Namespace :: string
  inst_Version :: string
  inst_CreateNamespace :: bool
  inst_Wait :: bool
  inst_Timeout :: Duration
  inst_WaitForJobs :: bool

record Upgrade_action =
  upg_Namespace :: string
  upg_Version :: string
  upg_Wait :: bool
  upg_Timeout :: Duration
  upg_WaitForJobs :: bool

record Uninstall_action =
  unin_Wait :: bool
  unin_Timeout :: Duration

definition NewInstall :: Install where
  "NewInstall = \<lparr>inst_ReleaseName = [], inst_Namespace = [], inst_Version = [],
     inst_CreateNamespace = False, inst_Wait = False, inst_Timeout = 0,
     inst_WaitForJobs = False\<rparr>"

definition NewUpgrade :: Upgrade_action where
  "NewUpgrade = \<lparr>upg_Namespace = [], upg_Version = [], upg_Wait = False,
     upg_Timeout = 0, upg_WaitForJobs = False\<rparr>"


text \<open>
  The calls the program makes, in the order it makes them. A run of an action carries
  the action as it is configured at the call.
\<close>

datatype event =
    EvMkdirAll
  | EvTryLock
  | EvUnlock
  | EvReadFile
  | EvUnmarshal
  | EvNewChartRepository string
  | EvDownloadIndexFile string
  | EvWriteFile
  | EvInit
  | EvLocateChart string
  | EvLoad
  | EvMergeValues
  | EvInstallRun Install
  | EvUpgradeRun Upgrade_action
  | EvUninstallRun Uninstall_action string

text \<open>
  The state: the content of the index file (\<open>None\<close> when the file does not exist),
  whether the lock handle of the running \<open>repoAdd\<close> holds the lock, and the calls
  made so far.
\<close>

record world =
  index_file :: "string option"
  lock_held :: bool
  events :: "event list"

definition log :: "event \<Rightarrow> world \<Rightarrow> world" where
  "log e w = w\<lparr>events := events w @ [e]\<rparr>"

section \<open>The calls of repoAdd\<close>

text \<open>
  \<open>os.ReadFile\<close>: the bytes read and the error. A file that does not exist gives
  no bytes and an error that \<open>os.IsNotExist\<close> recognises.
\<close>

definition os_ReadFile :: "env \<Rightarrow> world \<Rightarrow> (string \<times> ext_error option) \<times> world" where
  "os_ReadFile env w =
     (case read_fault env of
        Some e \<Rightarrow> (([], Some e), log EvReadFile w)
      | None \<Rightarrow>
          (case index_file w of
             None \<Rightarrow> (([], Some ErrNotExist), log EvReadFile w)
           | Some b \<Rightarrow> ((b, None), log EvReadFile w)))"

text \<open>\<open>flock.New\<close>, \<open>TryLockContext\<close> and \<open>Unlock\<close>.\<close>

definition flock_New :: "world \<Rightarrow> world" where
  "flock_New w = w\<lparr>lock_held := False\<rparr>"

definition TryLockContext :: "env \<Rightarrow> world \<Rightarrow> (bool \<times> ext_error option) \<times> world" where
  "TryLockContext env w =
     (try_lock_context env, log EvTryLock (w\<lparr>lock_held := fst (try_lock_context env)\<rparr>))"

definition Unlock :: "world \<Rightarrow> world" where
  "Unlock w = log EvUnlock (w\<lparr>lock_held := False\<rparr>)"

text \<open>
  \<open>File.WriteFile\<close>: marshal the file, then write the bytes over the index file.
\<close>

definition WriteFile :: "env \<Rightarrow> File \<Rightarrow> world \<Rightarrow> error option \<times> world" where
  "WriteFile env f w =
     (case yaml_marshal env f of
        Inl e \<Rightarrow> (Some (External e), w)
      | Inr data \<Rightarrow>
          (case write_fault env of
             Some e \<Rightarrow> (Some (External e), log EvWriteFile w)
           | None \<Rightarrow> (None, log EvWriteFile (w\<lparr>index_file := Some data\<rparr>))))"

section \<open>repoAdd\<close>

text \<open>The two messages of \<open>errors.Wrapf\<close> in \<open>repoAdd\<close>.\<close>

definition update_msg :: "env \<Rightarrow> string \<Rightarrow> string" where
  "update_msg env url = ''looks like we are unable to update helm repo '' @ quote env url"

definition invalid_msg :: "env \<Rightarrow> string \<Rightarrow> string" where
  "invalid_msg env url =
     ''looks like '' @ quote env url @ '' is not a valid chart repository or cannot be reached''"

text \<open>
  Lines 181 to 220: the entry is built; a name the index has is only checked for
  reachability, a new name is checked, added and written.
\<close>

definition repoAdd_entry :: "env \<Rightarrow> Helm \<Rightarrow> File \<Rightarrow> world \<Rightarrow> error option \<times> world" where
  "repoAdd_entry env h f w =
     (let c = \<lparr>Name = RepoName h, URL = RepoURL h\<rparr> in
      if Has f (RepoName h) then
        (let w1 = log (EvNewChartRepository (RepoURL h)) w in
         case new_chart_repository env c of
           Some e \<Rightarrow> (Some (External e), w1)
         | None \<Rightarrow>
             (let w2 = log (EvDownloadIndexFile (RepoURL h)) w1 in
              case download_index_file env c of
                Some e \<Rightarrow> (Some (WithMessage (External e) (update_msg env (RepoURL h))), w2)
              | None \<Rightarrow> (None, w2)))
      else
        (let w1 = log (EvNewChartRepository (RepoURL h)) w in
         case new_chart_repository env c of
           Some e \<Rightarrow> (Some (External e), w1)
         | None \<Rightarrow>
             (let w2 = log (EvDownloadIndexFile (RepoURL h)) w1 in
              case download_index_file env c of
                Some e \<Rightarrow> (Some (WithMessage (External e) (invalid_msg env (RepoURL h))), w2)
              | None \<Rightarrow> WriteFile env (Update f c) w2)))"

text \<open>
  Lines 169 to 220, the read-modify-write sequence: read the index file (a file that
  does not exist is read as no bytes), parse it, then handle the entry.
\<close>

definition repoAdd_rmw :: "env \<Rightarrow> Helm \<Rightarrow> world \<Rightarrow> error option \<times> world" where
  "repoAdd_rmw env h w =
     (let ((b, err), w1) = os_ReadFile env w in
      if (case err of Some e \<Rightarrow> \<not> os_IsNotExist e | None \<Rightarrow> False) then
        (map_option External err, w1)
      else
        (let w2 = log EvUnmarshal w1 in
         case yaml_unmarshal env b of
           Inl e \<Rightarrow> (Some (External e), w2)
         | Inr f \<Rightarrow> repoAdd_entry env h f w2))"

text \<open>
  Lines 155 to 220. \<open>defer fileLock.Unlock()\<close> is registered when the lock was taken
  without an error, and runs when the function returns, on whatever path.
\<close>

definition repoAdd_locked :: "env \<Rightarrow> Helm \<Rightarrow> world \<Rightarrow> error option \<times> world" where
  "repoAdd_locked env h w =
     (let ((locked, err), w1) = TryLockContext env (flock_New w);
          deferred = (err = None \<and> locked);
          (r, w2) = (case err of
                       Some e \<Rightarrow> (Some (External e), w1)
                     | None \<Rightarrow> repoAdd_rmw env h w1)
      in (r, if deferred then Unlock w2 else w2))"

text \<open>The whole function: the directory is made first.\<close>

definition repoAdd :: "env \<Rightarrow> Helm \<Rightarrow> world \<Rightarrow> error option \<times> world" where
  "repoAdd env h w =
     (let w1 = log EvMkdirAll w in
      if (case mkdir_all env of Some e \<Rightarrow> \<not> os_IsExist e | None \<Rightarrow> False) then
        (map_option External (mkdir_all env), w1)
      else repoAdd_locked env h w1)"

section \<open>Install, upgrade, uninstall\<close>

text \<open>
  What helm's action package answers: \<open>actionConfig.Init\<close> for a namespace,
  \<open>LocateChart\<close> (which reads the index file) for a chart reference,
  \<open>loader.Load\<close>, \<open>MergeValues\<close>, and the \<open>Run\<close> of each action. Chart paths,
  charts, merged values and responses are opaque and stand as strings.
\<close>

record actions =
  action_init :: "string \<Rightarrow> ext_error option"
  locate_chart :: "string option \<Rightarrow> string \<Rightarrow> ext_error + string"
  loader_load :: "string \<Rightarrow> ext_error + string"
  merge_values :: "string list \<Rightarrow> ext_error + string"
  install_run :: "Install \<Rightarrow> string \<Rightarrow> string \<Rightarrow> ext_error option"
  upgrade_run :: "Upgrade_action \<Rightarrow> string \<Rightarrow> string \<Rightarrow> string \<Rightarrow> ext_error option"
  uninstall_run :: "Uninstall_action \<Rightarrow> string \<Rightarrow> ext_error + string"

text \<open>\<open>fmt.Sprintf("%s/%s", h.RepoName, h.ChartName)\<close>.\<close>

definition chart_ref :: "Helm \<Rightarrow> string" where
  "chart_ref h = RepoName h @ ''/'' @ ChartName h"

text \<open>
  Lines 107 to 137 of \<open>Apply\<close>: load the chart, set the options, merge the values,
  run the install.
\<close>

definition Apply_install :: "actions \<Rightarrow> Helm \<Rightarrow> Install \<Rightarrow> string \<Rightarrow> world \<Rightarrow> error option \<times> world" where
  "Apply_install acts h client cp w =
     (let w1 = log EvLoad w in
      case loader_load acts cp of
        Inl e \<Rightarrow> (Some (External e), w1)
      | Inr chartRequested \<Rightarrow>
          (let client1 = client\<lparr>inst_ReleaseName := ReleaseName h,
                 inst_Namespace := Namespace h, inst_Version := Version h,
                 inst_CreateNamespace := True, inst_Wait := True,
                 inst_Timeout := 300 * Second, inst_WaitForJobs := True\<rparr>;
               w2 = log EvMergeValues w1
           in case merge_values acts (Values h) of
                Inl e \<Rightarrow> (Some (External e), w2)
              | Inr vals \<Rightarrow>
                  (let w3 = log (EvInstallRun client1) w2 in
                   case install_run acts client1 chartRequested vals of
                     Some e \<Rightarrow> (Some (External e), w3)
                   | None \<Rightarrow> (None, w3))))"

text \<open>
  \<open>Apply\<close>. The statement \<open>repoAdd(h)\<close> on line 97 drops what \<open>repoAdd\<close>
  returns; only its effect on the state is kept. The \<open>verbose\<close> flag chooses the
  logger and nothing else.
\<close>

definition Apply :: "env \<Rightarrow> actions \<Rightarrow> Helm \<Rightarrow> bool \<Rightarrow> world \<Rightarrow> error option \<times> world" where
  "Apply env acts h verbose w =
     (let w1 = log EvInit w in
      case action_init acts (Namespace h) of
        Some e \<Rightarrow>
          (Some (Errorf ''failed to initialize Helm configuration: '' (External e)), w1)
      | None \<Rightarrow>
          (let client = NewInstall;
               (dropped, w2) = repoAdd env h w1;
               w3 = log (EvLocateChart (chart_ref h)) w2
           in case locate_chart acts (index_file w2) (chart_ref h) of
                Inl e \<Rightarrow> (Some (External e), w3)
              | Inr cp \<Rightarrow> Apply_install acts h client cp w3))"

text \<open>
  Lines 326 to 355 of \<open>Upgrade\<close>. The namespace field is assigned twice, first the
  release name and then the namespace.
\<close>

definition Upgrade_run :: "actions \<Rightarrow> Helm \<Rightarrow> Upgrade_action \<Rightarrow> string \<Rightarrow> world \<Rightarrow> error option \<times> world" where
  "Upgrade_run acts h client cp w =
     (let w1 = log EvLoad w in
      case loader_load acts cp of
        Inl e \<Rightarrow> (Some (External e), w1)
      | Inr chartRequested \<Rightarrow>
          (let client1 = client\<lparr>upg_Namespace := ReleaseName h\<rparr>;
               client2 = client1\<lparr>upg_Namespace := Namespace h, upg_Version := Version h,
                 upg_Wait := True, upg_Timeout := 300 * Second, upg_WaitForJobs := True\<rparr>;
               w2 = log EvMergeValues w1
           in case merge_values acts (Values h) of
                Inl e \<Rightarrow> (Some (External e), w2)
              | Inr vals \<Rightarrow>
                  (let w3 = log (EvUpgradeRun client2) w2 in
                   case upgrade_run acts client2 (ReleaseName h) chartRequested vals of
                     Some e \<Rightarrow> (Some (External e), w3)
                   | None \<Rightarrow> (None, w3))))"

text \<open>\<open>Upgrade\<close>. Line 316 drops what \<open>repoAdd\<close> returns, as \<open>Apply\<close> does.\<close>

definition Upgrade :: "env \<Rightarrow> actions \<Rightarrow> Helm \<Rightarrow> world \<Rightarrow> error option \<times> world" where
  "Upgrade env acts h w =
     (let w1 = log EvInit w in
      case action_init acts (Namespace h) of
        Some e \<Rightarrow> (Some (External e), w1)
      | None \<Rightarrow>
          (let client = NewUpgrade;
               (dropped, w2) = repoAdd env h w1;
               w3 = log (EvLocateChart (chart_ref h)) w2
           in case locate_chart acts (index_file w2) (chart_ref h) of
                Inl e \<Rightarrow> (Some (External e), w3)
              | Inr cp \<Rightarrow> Upgrade_run acts h client cp w3))"



section \<open>The HTTP client\<close>

text \<open>
  Modelled from the spec: the struct \<open>config.Profile\<close> of the package
  \<open>pb/pkg/config\<close>, of which \<open>pkg/http/http.go\<close> reads the base URL and the
  basic-auth user name and password. The field \<open>URL\<close> is written
  \<open>Profile_URL\<close> here.
\<close>

record Profile =
  Profile_URL :: string
  Username :: string
  Password :: string

text \<open>
  \<open>http.Client\<close>, of which the program sets the timeout, and the program's
  \<open>HTTPClient\<close> over a profile.
\<close>

record http_Client =
  Timeout :: Duration

record HTTPClient =
  Client :: http_Client
  Profile :: Profile

text \<open>
  \<open>http.Request\<close>: the method, the parsed URL, the header (each key with its list of
  values) and the body. The field \<open>URL\<close> is written \<open>Request_URL\<close> here.
\<close>

record Request =
  Method :: string
  Request_URL :: string
  Header :: "string \<rightharpoonup> string list"
  Body :: "string option"

text \<open>
  What \<open>net/url\<close>, \<open>net/http\<close> and \<open>encoding/base64\<close> answer:
  \<open>url_Parse\<close> parses a URL (the parsed URL stands as a string), \<open>url_join\<close> is
  \<open>(*URL).JoinPath\<close> followed by \<open>String\<close>, \<open>method_error\<close> is the error of
  \<open>http.NewRequest\<close> for a method that is not valid, \<open>base64\<close> is the standard
  encoding.
\<close>

record http_env =
  url_Parse :: "string \<Rightarrow> ext_error + string"
  url_join :: "string \<Rightarrow> string list \<Rightarrow> string"
  method_error :: "string \<Rightarrow> ext_error option"
  base64 :: "string \<Rightarrow> string"

text \<open>
  \<open>url.JoinPath\<close>: when the base does not parse, the result is the empty string and
  the error of the parse.
\<close>

definition url_JoinPath :: "http_env \<Rightarrow> string \<Rightarrow> string list \<Rightarrow> string \<times> ext_error option" where
  "url_JoinPath e base elems =
     (case url_Parse e base of
        Inl err \<Rightarrow> ([], Some err)
      | Inr u \<Rightarrow> (url_join e u elems, None))"

text \<open>
  \<open>http.NewRequest\<close>: an empty method is \<open>GET\<close>; the method is checked, the URL is
  parsed, and the request starts with an empty header.
\<close>

definition http_NewRequest :: "http_env \<Rightarrow> string \<Rightarrow> string \<Rightarrow> string option \<Rightarrow> error + Request" where
  "http_NewRequest e method url body =
     (let m = (if method = [] then ''GET'' else method) in
      case method_error e m of
        Some err \<Rightarrow> Inl (External err)
      | None \<Rightarrow>
          (case url_Parse e url of
             Inl err \<Rightarrow> Inl (External err)
           | Inr u \<Rightarrow> Inr \<lparr>Method = m, Request_URL = u, Header = Map.empty, Body = body\<rparr>))"

text \<open>\<open>Header.Set\<close> replaces the values of a key, \<open>Header.Add\<close> appends one.\<close>

definition Header_Set :: "(string \<rightharpoonup> string list) \<Rightarrow> string \<Rightarrow> string \<Rightarrow> (string \<rightharpoonup> string list)" where
  "Header_Set hdr k v = hdr(k \<mapsto> [v])"

definition Header_Add :: "(string \<rightharpoonup> string list) \<Rightarrow> string \<Rightarrow> string \<Rightarrow> (string \<rightharpoonup> string list)" where
  "Header_Add hdr k v = hdr(k \<mapsto> (case hdr k of None \<Rightarrow> [] | Some vs \<Rightarrow> vs) @ [v])"

text \<open>
  \<open>Request.SetBasicAuth\<close> sets the header \<open>Authorization\<close> to \<open>Basic\<close> and the
  base64 of \<open>username:password\<close>.
\<close>

definition SetBasicAuth :: "http_env \<Rightarrow> Request \<Rightarrow> string \<Rightarrow> string \<Rightarrow> Request" where
  "SetBasicAuth e req username password =
     req\<lparr>Header := Header_Set (Header req) ''Authorization''
            (''Basic '' @ base64 e (username @ '':'' @ password))\<rparr>"

text \<open>The functions of \<open>pkg/http/http.go\<close>.\<close>

definition DefaultClient :: "Profile \<Rightarrow> HTTPClient" where
  "DefaultClient profile = \<lparr>Client = \<lparr>Timeout = 60 * Second\<rparr>, Profile = profile\<rparr>"

definition baseAPIURL :: "http_env \<Rightarrow> HTTPClient \<Rightarrow> string \<Rightarrow> string" where
  "baseAPIURL e client path =
     (let (x, dropped) = url_JoinPath e (Profile_URL (Profile client)) [''api/v1/'', path]
      in x)"

definition NewRequest :: "http_env \<Rightarrow> HTTPClient \<Rightarrow> string \<Rightarrow> string \<Rightarrow> string option \<Rightarrow> error + Request" where
  "NewRequest e client method path body =
     (case http_NewRequest e method (baseAPIURL e client path) body of
        Inl err \<Rightarrow> Inl err
      | Inr req \<Rightarrow>
          (let req1 = SetBasicAuth e req (Username (Profile client)) (Password (Profile client))
           in Inr (req1\<lparr>Header := Header_Add (Header req1) ''Content-Type'' ''application/json''\<rparr>)))"

section \<open>Observations\<close>

text \<open>
  The directory step passes when \<open>os.MkdirAll\<close> returns no error or one that
  \<open>os.IsExist\<close> recognises (line 151).
\<close>

definition mkdir_passes :: "env \<Rightarrow> bool" where
  "mkdir_passes env = (case mkdir_all env of Some e \<Rightarrow> os_IsExist e | None \<Rightarrow> True)"

text \<open>The bytes that line 170 reads in a state.\<close>

definition read_bytes :: "env \<Rightarrow> world \<Rightarrow> string" where
  "read_bytes env w = fst (fst (os_ReadFile env w))"

text \<open>The URL that the index file stores for a name, as the parser reads the file.\<close>

definition stored_URL :: "env \<Rightarrow> world \<Rightarrow> string \<Rightarrow> string option" where
  "stored_URL env w name =
     (case index_file w of
        None \<Rightarrow> None
      | Some b \<Rightarrow>
          (case yaml_unmarshal env b of
             Inl e \<Rightarrow> None
           | Inr f \<Rightarrow> map_option URL (Get f name)))"


section \<open>A concrete environment\<close>

text \<open>
  The scenario of the specification: the repository \<open>stable\<close> at
  \<open>https://charts.example.com\<close>. The codec knows the empty index and the index with
  that one entry; every remote but \<open>https://down.example.com\<close> is reachable.
\<close>

definition ex_entry :: Entry where
  "ex_entry = \<lparr>Name = ''stable'', URL = ''https://charts.example.com''\<rparr>"

definition ex_file :: File where
  "ex_file = \<lparr>APIVersion = [], Generated = [], Repositories = [ex_entry]\<rparr>"

definition ex_yaml :: string where
  "ex_yaml = ''repositories: [{name: stable, url: https://charts.example.com}]''"

definition ex_env :: env where
  "ex_env = \<lparr>
     mkdir_all = None,
     try_lock_context = (True, None),
     read_fault = None,
     yaml_unmarshal = (\<lambda>b. if b = [] then Inr zero_File
                            else if b = ex_yaml then Inr ex_file
                            else Inl (ErrOther ''yaml: unmarshal errors'')),
     yaml_marshal = (\<lambda>f. if f = ex_file then Inr ex_yaml
                          else Inl (ErrOther ''yaml: cannot marshal'')),
     new_chart_repository = (\<lambda>c. None),
     download_index_file = (\<lambda>c. if URL c = ''https://down.example.com''
                                 then Some (ErrOther ''connection refused'') else None),
     write_fault = None,
     quote = (\<lambda>s. [CHR 0x22] @ s @ [CHR 0x22])\<rparr>"

definition ex_helm :: Helm where
  "ex_helm = \<lparr>ReleaseName = ''parseable'', Namespace = ''default'', Values = [],
     RepoName = ''stable'', ChartName = ''parseable'',
     RepoURL = ''https://charts.example.com'', Version = ''1.0.0''\<rparr>"

definition w_empty :: world where
  "w_empty = \<lparr>index_file = None, lock_held = False, events = []\<rparr>"

definition w_stable :: world where
  "w_stable = \<lparr>index_file = Some ex_yaml, lock_held = False, events = []\<rparr>"

definition ex_actions :: actions where
  "ex_actions = \<lparr>
     action_init = (\<lambda>ns. None),
     locate_chart = (\<lambda>idx ref. if idx = Some ex_yaml \<and> ref = ''stable/parseable''
                                then Inr ''/cache/parseable-1.0.0.tgz''
                                else Inl (ErrOther ''repo not found'')),
     loader_load = (\<lambda>cp. Inr ''chart''),
     merge_values = (\<lambda>vs. Inr ''values''),
     install_run = (\<lambda>c ch vals. None),
     upgrade_run = (\<lambda>c n ch vals. None),
     uninstall_run = (\<lambda>c n. Inr ''release uninstalled'')\<rparr>"

definition ex_http_env :: http_env where
  "ex_http_env = \<lparr>
     url_Parse = (\<lambda>s. if s = ''://bad'' then Inl (ErrOther ''missing protocol scheme'')
                       else Inr s),
     url_join = (\<lambda>u elems. u @ ''/'' @ concat elems),
     method_error = (\<lambda>m. if m = ''GET'' \<or> m = ''POST'' then None
                          else Some (ErrOther ''net/http: invalid method'')),
     base64 = (\<lambda>s. ''b64('' @ s @ '')'')\<rparr>"

definition ex_profile :: Profile where
  "ex_profile = \<lparr>Profile_URL = ''http://localhost:8000'', Username = ''admin'',
     Password = ''secret''\<rparr>"

section \<open>Frame lemmas\<close>

lemma index_file_log [simp]: "index_file (log e w) = index_file w"
  by (simp add: log_def)

lemma lock_held_log [simp]: "lock_held (log e w) = lock_held w"
  by (simp add: log_def)

lemma events_log [simp]: "events (log e w) = events w @ [e]"
  by (simp add: log_def)

lemmas repoAdd_defs =
  repoAdd_def repoAdd_locked_def repoAdd_rmw_def repoAdd_entry_def WriteFile_def
  os_ReadFile_def TryLockContext_def flock_New_def Unlock_def Let_def

section \<open>The steps of repoAdd\<close>

lemma repoAdd_mkdir_passes:
  "mkdir_passes env \<Longrightarrow> repoAdd env h w = repoAdd_locked env h (log EvMkdirAll w)"
  by (simp add: repoAdd_def mkdir_passes_def Let_def split: option.splits)

lemma repoAdd_locked_no_error:
  "snd (try_lock_context env) = None \<Longrightarrow>
   repoAdd_locked env h w =
     (let w1 = snd (TryLockContext env (flock_New w)); r = repoAdd_rmw env h w1
      in (fst r, if fst (try_lock_context env) then Unlock (snd r) else snd r))"
  by (cases "try_lock_context env")
     (simp add: repoAdd_locked_def TryLockContext_def Let_def split: prod.splits)

lemma repoAdd_rmw_parsed:
  "read_fault env = None \<Longrightarrow> index_file w = Some b \<Longrightarrow> yaml_unmarshal env b = Inr f \<Longrightarrow>
   repoAdd_rmw env h w = repoAdd_entry env h f (log EvUnmarshal (log EvReadFile w))"
  by (simp add: repoAdd_rmw_def os_ReadFile_def Let_def)

lemma Has_Update: "Has (Update f c) (Name c)"
proof -
  have "find (\<lambda>e. Name e = Name c) (update_entries rs c) \<noteq> None" for rs
    by (induction rs) auto
  then show ?thesis by (simp add: Has_def Get_def Update_def)
qed

text \<open>The index file that a call leaves depends on the index file it finds.\<close>

lemma repoAdd_index_cong:
  "index_file w = index_file w' \<Longrightarrow>
   index_file (snd (repoAdd env h w)) = index_file (snd (repoAdd env h w'))"
  by (auto simp: repoAdd_defs split: option.splits sum.splits prod.splits)

text \<open>A call leaves the index file alone, or every step passed and it wrote.\<close>

lemma repoAdd_written_or_not:
  "index_file (snd (repoAdd env h w)) = index_file w \<or>
   (\<exists>f d. mkdir_passes env \<and> snd (try_lock_context env) = None
      \<and> (read_fault env = None \<or> read_fault env = Some ErrNotExist)
      \<and> yaml_unmarshal env (read_bytes env w) = Inr f
      \<and> \<not> Has f (RepoName h)
      \<and> new_chart_repository env \<lparr>Name = RepoName h, URL = RepoURL h\<rparr> = None
      \<and> download_index_file env \<lparr>Name = RepoName h, URL = RepoURL h\<rparr> = None
      \<and> yaml_marshal env (Update f \<lparr>Name = RepoName h, URL = RepoURL h\<rparr>) = Inr d
      \<and> write_fault env = None
      \<and> index_file (snd (repoAdd env h w)) = Some d)"
  by (auto simp: repoAdd_defs mkdir_passes_def read_bytes_def os_IsNotExist_def
      split: option.splits sum.splits prod.splits)

lemma repoAdd_writes:
  assumes "mkdir_passes env" and "snd (try_lock_context env) = None"
    and "read_fault env = None \<or> read_fault env = Some ErrNotExist"
    and "yaml_unmarshal env (read_bytes env w) = Inr f"
    and "\<not> Has f (RepoName h)"
    and "new_chart_repository env \<lparr>Name = RepoName h, URL = RepoURL h\<rparr> = None"
    and "download_index_file env \<lparr>Name = RepoName h, URL = RepoURL h\<rparr> = None"
    and "yaml_marshal env (Update f \<lparr>Name = RepoName h, URL = RepoURL h\<rparr>) = Inr d"
    and "write_fault env = None"
  shows "fst (repoAdd env h w) = None \<and> index_file (snd (repoAdd env h w)) = Some d"
  using assms
  by (auto simp: repoAdd_defs mkdir_passes_def read_bytes_def os_IsNotExist_def
      split: option.splits sum.splits prod.splits)

lemma repoAdd_known_name_never_writes:
  assumes "yaml_unmarshal env (read_bytes env w) = Inr f" and "Has f (RepoName h)"
  shows "index_file (snd (repoAdd env h w)) = index_file w"
  using assms
  by (auto simp: repoAdd_defs read_bytes_def split: option.splits sum.splits prod.splits)

section \<open>The concrete environment\<close>

lemma ex_yaml_not_empty: "ex_yaml \<noteq> []"
  by (simp add: ex_yaml_def)

lemma ex_env_fields [simp]:
  "mkdir_all ex_env = None"
  "try_lock_context ex_env = (True, None)"
  "read_fault ex_env = None"
  "yaml_unmarshal ex_env [] = Inr zero_File"
  "yaml_unmarshal ex_env ex_yaml = Inr ex_file"
  "yaml_marshal ex_env ex_file = Inr ex_yaml"
  "new_chart_repository ex_env c = None"
  "write_fault ex_env = None"
  by (simp_all add: ex_env_def ex_yaml_not_empty)

lemma ex_env_roundtrip:
  "yaml_marshal ex_env f = Inr b \<Longrightarrow> yaml_unmarshal ex_env b = Inr f"
  by (auto simp: ex_env_def ex_yaml_not_empty split: if_splits)

lemma mkdir_passes_ex_env [simp]: "mkdir_passes ex_env"
  by (simp add: mkdir_passes_def)

lemma Has_ex_file [simp]: "Has ex_file ''stable''"
  by (simp add: Has_def Get_def ex_file_def ex_entry_def)

lemma Update_zero_File_ex [simp]:
  "Update zero_File \<lparr>Name = ''stable'', URL = ''https://charts.example.com''\<rparr> = ex_file"
  by (simp add: Update_def zero_File_def ex_file_def ex_entry_def)

section \<open>Claims about repoAdd\<close>

text \<open>
  C1. When the index file parses to an index that has an entry with the name being
  synced, and the repository at the new URL can be built and its index downloaded, then
  \<open>repoAdd\<close> returns no error and never writes: the index file is what it was, the URL
  stored for the name is the one stored before, and the calls made are exactly the
  directory step, the lock, the read, the parse, the repository and the download (and
  the unlock when the lock was taken). This holds for every index and every new URL.
\<close>

theorem repoAdd_existing_name_keeps_index:
  assumes "mkdir_passes env"
    and "snd (try_lock_context env) = None"
    and "read_fault env = None"
    and "index_file w = Some b"
    and "yaml_unmarshal env b = Inr f"
    and "Has f (RepoName h)"
    and "new_chart_repository env \<lparr>Name = RepoName h, URL = RepoURL h\<rparr> = None"
    and "download_index_file env \<lparr>Name = RepoName h, URL = RepoURL h\<rparr> = None"
  shows "fst (repoAdd env h w) = None
    \<and> index_file (snd (repoAdd env h w)) = index_file w
    \<and> stored_URL env (snd (repoAdd env h w)) (RepoName h) = stored_URL env w (RepoName h)
    \<and> stored_URL env w (RepoName h) = map_option URL (Get f (RepoName h))
    \<and> stored_URL env w (RepoName h) \<noteq> None
    \<and> events (snd (repoAdd env h w)) =
        events w @ [EvMkdirAll, EvTryLock, EvReadFile, EvUnmarshal,
          EvNewChartRepository (RepoURL h), EvDownloadIndexFile (RepoURL h)]
        @ (if fst (try_lock_context env) then [EvUnlock] else [])"
  using assms
  by (simp add: repoAdd_mkdir_passes repoAdd_locked_no_error repoAdd_rmw_parsed
      repoAdd_entry_def stored_URL_def Has_def Let_def TryLockContext_def flock_New_def
      Unlock_def)

theorem repoAdd_existing_name_keeps_index_witness:
  "fst (repoAdd ex_env (ex_helm\<lparr>RepoURL := ''https://other.example.com''\<rparr>) w_stable) = None
   \<and> index_file (snd (repoAdd ex_env (ex_helm\<lparr>RepoURL := ''https://other.example.com''\<rparr>)
        w_stable)) = Some ex_yaml
   \<and> stored_URL ex_env (snd (repoAdd ex_env
        (ex_helm\<lparr>RepoURL := ''https://other.example.com''\<rparr>) w_stable)) ''stable''
      = Some ''https://charts.example.com''"
proof -
  let ?h = "ex_helm\<lparr>RepoURL := ''https://other.example.com''\<rparr>"
  have name: "RepoName ?h = ''stable''"
    by (simp add: ex_helm_def)
  have dl: "download_index_file ex_env \<lparr>Name = RepoName ?h, URL = RepoURL ?h\<rparr> = None"
    by (simp add: ex_env_def)
  have stored: "stored_URL ex_env w_stable ''stable'' = Some ''https://charts.example.com''"
    by (simp add: stored_URL_def w_stable_def Get_def ex_file_def ex_entry_def)
  show ?thesis
    using repoAdd_existing_name_keeps_index [of ex_env w_stable ex_yaml ex_file ?h] dl stored
    by (simp add: name w_stable_def)
qed



text \<open>
  C3. \<open>repoAdd\<close> is idempotent on the index file. Take one environment, in which
  an index that was updated with the entry and marshalled parses back to an index that
  has the entry's name. Then the index file after a second call with the same entry is
  the index file after the first call, for every entry and every starting state: the
  second call adds no entry and changes no URL.
\<close>

theorem repoAdd_idempotent:
  assumes reads_back:
    "\<And>f d. yaml_marshal env (Update f \<lparr>Name = RepoName h, URL = RepoURL h\<rparr>) = Inr d
       \<Longrightarrow> \<exists>f'. yaml_unmarshal env d = Inr f' \<and> Has f' (RepoName h)"
  shows "index_file (snd (repoAdd env h (snd (repoAdd env h w)))) =
         index_file (snd (repoAdd env h w))"
proof -
  let ?c = "\<lparr>Name = RepoName h, URL = RepoURL h\<rparr>"
  let ?w1 = "snd (repoAdd env h w)"
  consider (same) "index_file ?w1 = index_file w"
    | (written) f d where "mkdir_passes env" "snd (try_lock_context env) = None"
        "read_fault env = None \<or> read_fault env = Some ErrNotExist"
        "yaml_unmarshal env (read_bytes env w) = Inr f"
        "\<not> Has f (RepoName h)"
        "new_chart_repository env ?c = None"
        "download_index_file env ?c = None"
        "yaml_marshal env (Update f ?c) = Inr d"
        "write_fault env = None"
        "index_file ?w1 = Some d"
    using repoAdd_written_or_not [of env h w] by blast
  then show ?thesis
  proof cases
    case same
    then show ?thesis by (rule repoAdd_index_cong)
  next
    case written
    show ?thesis
    proof (cases "read_fault env")
      case None
      then have "read_bytes env ?w1 = d"
        using written(10) by (simp add: read_bytes_def os_ReadFile_def)
      moreover obtain f' where "yaml_unmarshal env d = Inr f'" and "Has f' (RepoName h)"
        using reads_back [OF written(8)] by blast
      ultimately show ?thesis
        using repoAdd_known_name_never_writes [of env ?w1 f' h] by simp
    next
      case (Some e)
      then have "read_bytes env ?w1 = read_bytes env w"
        by (simp add: read_bytes_def os_ReadFile_def)
      then have "yaml_unmarshal env (read_bytes env ?w1) = Inr f"
        using written(4) by simp
      then have "index_file (snd (repoAdd env h ?w1)) = Some d"
        using repoAdd_writes [OF written(1,2,3) _ written(5,6,7,8,9), of ?w1] by simp
      then show ?thesis using written(10) by simp
    qed
  qed
qed

theorem repoAdd_idempotent_witness:
  "index_file (snd (repoAdd ex_env ex_helm (snd (repoAdd ex_env ex_helm w_empty)))) =
     index_file (snd (repoAdd ex_env ex_helm w_empty))
   \<and> index_file (snd (repoAdd ex_env ex_helm w_empty)) = Some ex_yaml"
proof -
  let ?c = "\<lparr>Name = RepoName ex_helm, URL = RepoURL ex_helm\<rparr>"
  have rb: "yaml_unmarshal ex_env (read_bytes ex_env w_empty) = Inr zero_File"
    by (simp add: read_bytes_def os_ReadFile_def w_empty_def)
  have nh: "\<not> Has zero_File (RepoName ex_helm)"
    by (simp add: Has_def Get_def zero_File_def)
  have dl: "download_index_file ex_env ?c = None"
    by (simp add: ex_env_def ex_helm_def)
  have m: "yaml_marshal ex_env (Update zero_File ?c) = Inr ex_yaml"
    by (simp add: ex_helm_def)
  have first: "index_file (snd (repoAdd ex_env ex_helm w_empty)) = Some ex_yaml"
    using repoAdd_writes [of ex_env w_empty zero_File ex_helm ex_yaml] rb nh dl m
    by simp
  have name: "RepoName ex_helm = ''stable''"
    by (simp add: ex_helm_def)
  have reread: "\<exists>f'. yaml_unmarshal ex_env d = Inr f' \<and> Has f' (RepoName ex_helm)"
    if "yaml_marshal ex_env (Update f ?c) = Inr d" for f d
    using ex_env_roundtrip [OF that] Has_Update [of f ?c] by simp
  show ?thesis
    using repoAdd_idempotent [where env = ex_env and h = ex_helm and w = w_empty, OF reread]
      first
    by simp
qed

text \<open>
  C4. A missing index file is read as the empty index: when it does not exist, the
  empty input parses to the empty index and the remote is reachable, \<open>repoAdd\<close>
  returns no error and the index file then exists and holds the marshalled index whose
  only entry is the new one. A read error that \<open>os.IsNotExist\<close> does not recognise is
  returned at once, after the read and before any parse, download or write.
\<close>

theorem repoAdd_missing_index_file:
  assumes "mkdir_passes env" and "snd (try_lock_context env) = None"
  shows "(read_fault env = None \<and> index_file w = None
          \<and> yaml_unmarshal env [] = Inr zero_File
          \<and> new_chart_repository env \<lparr>Name = RepoName h, URL = RepoURL h\<rparr> = None
          \<and> download_index_file env \<lparr>Name = RepoName h, URL = RepoURL h\<rparr> = None
          \<and> yaml_marshal env \<lparr>APIVersion = [], Generated = [],
               Repositories = [\<lparr>Name = RepoName h, URL = RepoURL h\<rparr>]\<rparr> = Inr d
          \<and> write_fault env = None
        \<longrightarrow> fst (repoAdd env h w) = None
          \<and> index_file (snd (repoAdd env h w)) = Some d)
    \<and> (read_fault env = Some e \<and> \<not> os_IsNotExist e
        \<longrightarrow> fst (repoAdd env h w) = Some (External e)
          \<and> index_file (snd (repoAdd env h w)) = index_file w
          \<and> events (snd (repoAdd env h w)) =
              events w @ [EvMkdirAll, EvTryLock, EvReadFile]
              @ (if fst (try_lock_context env) then [EvUnlock] else []))"
  using assms
  by (auto simp: repoAdd_mkdir_passes repoAdd_locked_no_error repoAdd_rmw_def
      repoAdd_entry_def WriteFile_def os_ReadFile_def TryLockContext_def flock_New_def
      Unlock_def Let_def os_IsNotExist_def Has_def Get_def Update_def zero_File_def)

theorem repoAdd_missing_index_file_witness:
  "fst (repoAdd ex_env ex_helm w_empty) = None
   \<and> index_file (snd (repoAdd ex_env ex_helm w_empty)) = Some ex_yaml
   \<and> fst (repoAdd (ex_env\<lparr>read_fault := Some (ErrOther ''permission denied'')\<rparr>) ex_helm
        w_stable) = Some (External (ErrOther ''permission denied''))
   \<and> index_file (snd (repoAdd (ex_env\<lparr>read_fault := Some (ErrOther ''permission denied'')\<rparr>)
        ex_helm w_stable)) = Some ex_yaml"
proof -
  let ?c = "\<lparr>Name = RepoName ex_helm, URL = RepoURL ex_helm\<rparr>"
  let ?env = "ex_env\<lparr>read_fault := Some (ErrOther ''permission denied'')\<rparr>"
  have dl: "download_index_file ex_env ?c = None"
    by (simp add: ex_env_def ex_helm_def)
  have m: "yaml_marshal ex_env \<lparr>APIVersion = [], Generated = [], Repositories = [?c]\<rparr>
      = Inr ex_yaml"
    by (simp add: ex_env_def ex_file_def ex_entry_def ex_helm_def)
  have missing: "index_file w_empty = None"
    by (simp add: w_empty_def)
  have a: "fst (repoAdd ex_env ex_helm w_empty) = None
      \<and> index_file (snd (repoAdd ex_env ex_helm w_empty)) = Some ex_yaml"
    using repoAdd_missing_index_file [of ex_env w_empty ex_helm ex_yaml] dl m missing
    by simp
  have p: "mkdir_passes ?env" "snd (try_lock_context ?env) = None"
    by (simp_all add: mkdir_passes_def)
  have b: "fst (repoAdd ?env ex_helm w_stable) = Some (External (ErrOther ''permission denied''))
      \<and> index_file (snd (repoAdd ?env ex_helm w_stable)) = Some ex_yaml"
    using repoAdd_missing_index_file [OF p, of w_stable ex_helm _ "ErrOther ''permission denied''"]
    by (simp add: os_IsNotExist_def w_stable_def)
  show ?thesis using a b by simp
qed

lemma repoAdd_rmw_reads:
  "\<exists>rest. events (snd (repoAdd_rmw env h w)) = events w @ EvReadFile # rest"
  by (auto simp: repoAdd_rmw_def repoAdd_entry_def WriteFile_def os_ReadFile_def Let_def
      split: option.splits sum.splits)

text \<open>
  C5. The lock step of \<open>repoAdd\<close>, once the directory step has passed. An error of
  \<open>TryLockContext\<close> is returned and nothing is read or written. With no error and no
  lock, the read-modify-write sequence runs all the same, in a state where the lock is
  not held, and no unlock is made. With no error and the lock, the sequence runs with
  the lock held, and the unlock is the last call before the return, whatever the
  sequence returned; the lock is then not held.
\<close>

theorem repoAdd_lock_acquisition:
  assumes "mkdir_passes env"
  shows "(snd (try_lock_context env) = Some e
        \<longrightarrow> fst (repoAdd env h w) = Some (External e)
          \<and> index_file (snd (repoAdd env h w)) = index_file w
          \<and> events (snd (repoAdd env h w)) = events w @ [EvMkdirAll, EvTryLock])
    \<and> (try_lock_context env = (False, None)
        \<longrightarrow> repoAdd env h w =
              repoAdd_rmw env h
                (w\<lparr>lock_held := False,
                  events := events w @ [EvMkdirAll, EvTryLock]\<rparr>)
          \<and> (\<exists>rest. events (snd (repoAdd env h w)) =
                events w @ [EvMkdirAll, EvTryLock, EvReadFile] @ rest))
    \<and> (try_lock_context env = (True, None)
        \<longrightarrow> fst (repoAdd env h w) =
              fst (repoAdd_rmw env h
                (w\<lparr>lock_held := True,
                  events := events w @ [EvMkdirAll, EvTryLock]\<rparr>))
          \<and> events (snd (repoAdd env h w)) =
              events (snd (repoAdd_rmw env h
                (w\<lparr>lock_held := True,
                  events := events w @ [EvMkdirAll, EvTryLock]\<rparr>))) @ [EvUnlock]
          \<and> \<not> lock_held (snd (repoAdd env h w)))"
proof -
  let ?w = "\<lambda>l. w\<lparr>lock_held := l, events := events w @ [EvMkdirAll, EvTryLock]\<rparr>"
  have reads: "\<exists>rest. events (snd (repoAdd_rmw env h (?w False))) =
      events w @ [EvMkdirAll, EvTryLock, EvReadFile] @ rest"
    using repoAdd_rmw_reads [of env h "?w False"] by simp
  show ?thesis
    using assms reads
    by (cases "try_lock_context env")
       (auto simp: repoAdd_mkdir_passes repoAdd_locked_def TryLockContext_def flock_New_def
        Unlock_def Let_def log_def split: prod.splits)
qed

theorem repoAdd_lock_acquisition_witness:
  "fst (repoAdd (ex_env\<lparr>try_lock_context := (False, Some (ErrOther ''lock failed''))\<rparr>)
      ex_helm w_stable) = Some (External (ErrOther ''lock failed''))
   \<and> events (snd (repoAdd (ex_env\<lparr>try_lock_context :=
        (False, Some (ErrOther ''lock failed''))\<rparr>) ex_helm w_stable))
      = [EvMkdirAll, EvTryLock]
   \<and> repoAdd (ex_env\<lparr>try_lock_context := (False, None)\<rparr>) ex_helm w_stable =
       repoAdd_rmw (ex_env\<lparr>try_lock_context := (False, None)\<rparr>) ex_helm
         (w_stable\<lparr>lock_held := False, events := [EvMkdirAll, EvTryLock]\<rparr>)
   \<and> \<not> lock_held (snd (repoAdd ex_env ex_helm w_stable))"
proof -
  let ?e1 = "ex_env\<lparr>try_lock_context := (False, Some (ErrOther ''lock failed''))\<rparr>"
  let ?e2 = "ex_env\<lparr>try_lock_context := (False, None)\<rparr>"
  have p: "mkdir_passes ?e1" "mkdir_passes ?e2"
    by (simp_all add: mkdir_passes_def)
  have ev: "events w_stable = []"
    by (simp add: w_stable_def)
  show ?thesis
    using repoAdd_lock_acquisition [OF p(1), of "ErrOther ''lock failed''" ex_helm w_stable]
      repoAdd_lock_acquisition [OF p(2), of _ ex_helm w_stable]
      repoAdd_lock_acquisition [OF mkdir_passes_ex_env, of _ ex_helm w_stable]
    by (simp add: ev)
qed

section \<open>Claims about install and upgrade\<close>

text \<open>
  C6. \<open>Apply\<close> and \<open>Upgrade\<close> call \<open>repoAdd\<close> before they locate the chart, but
  they drop what it returns. Here the index has \<open>stable\<close>, the URL given for it is
  unreachable, and \<open>repoAdd\<close> returns its wrapped download error; the chart is then
  located through the stored entry, and \<open>Apply\<close> and \<open>Upgrade\<close> both return no error.
\<close>

theorem Apply_drops_repoAdd_error:
  "fst (repoAdd ex_env (ex_helm\<lparr>RepoURL := ''https://down.example.com''\<rparr>)
      (log EvInit w_stable)) =
     Some (WithMessage (External (ErrOther ''connection refused''))
       (update_msg ex_env ''https://down.example.com''))
   \<and> fst (Apply ex_env ex_actions (ex_helm\<lparr>RepoURL := ''https://down.example.com''\<rparr>)
        False w_stable) = None
   \<and> fst (Upgrade ex_env ex_actions (ex_helm\<lparr>RepoURL := ''https://down.example.com''\<rparr>)
        w_stable) = None
   \<and> take 9 (events (snd (Apply ex_env ex_actions
        (ex_helm\<lparr>RepoURL := ''https://down.example.com''\<rparr>) False w_stable))) =
      [EvInit, EvMkdirAll, EvTryLock, EvReadFile, EvUnmarshal,
       EvNewChartRepository ''https://down.example.com'',
       EvDownloadIndexFile ''https://down.example.com'', EvUnlock,
       EvLocateChart ''stable/parseable'']"
proof -
  let ?h = "ex_helm\<lparr>RepoURL := ''https://down.example.com''\<rparr>"
  let ?w = "log EvInit w_stable"
  let ?c = "\<lparr>Name = RepoName ?h, URL = RepoURL ?h\<rparr>"
  have dl: "download_index_file ex_env ?c = Some (ErrOther ''connection refused'')"
    by (simp add: ex_env_def)
  have name: "RepoName ?h = ''stable''" and url: "RepoURL ?h = ''https://down.example.com''"
    by (simp_all add: ex_helm_def)
  have idx: "index_file w_stable = Some ex_yaml"
    by (simp add: w_stable_def)
  have sync: "repoAdd ex_env ?h ?w =
      (Some (WithMessage (External (ErrOther ''connection refused''))
         (update_msg ex_env ''https://down.example.com'')),
       ?w\<lparr>lock_held := False,
           events := [EvInit, EvMkdirAll, EvTryLock, EvReadFile, EvUnmarshal,
             EvNewChartRepository ''https://down.example.com'',
             EvDownloadIndexFile ''https://down.example.com'', EvUnlock]\<rparr>)"
    using dl
    by (simp add: repoAdd_defs log_def w_stable_def name url)
  have ref: "chart_ref ?h = ''stable/parseable''"
    by (simp add: chart_ref_def ex_helm_def)
  have acts: "action_init ex_actions ns = None"
    "locate_chart ex_actions (Some ex_yaml) ''stable/parseable'' = Inr ''/cache/parseable-1.0.0.tgz''"
    "loader_load ex_actions cp = Inr ''chart''"
    "merge_values ex_actions vs = Inr ''values''"
    "install_run ex_actions ci ch vals = None"
    "upgrade_run ex_actions cu n ch vals = None"
    for ns cp vs ci cu n ch vals
    by (simp_all add: ex_actions_def)
  have a: "fst (Apply ex_env ex_actions ?h False w_stable) = None"
    using sync
    by (simp add: Apply_def Apply_install_def Let_def acts ref idx)
  have u: "fst (Upgrade ex_env ex_actions ?h w_stable) = None"
    using sync
    by (simp add: Upgrade_def Upgrade_run_def Let_def acts ref idx)
  have t: "take 9 (events (snd (Apply ex_env ex_actions ?h False w_stable))) =
      [EvInit, EvMkdirAll, EvTryLock, EvReadFile, EvUnmarshal,
       EvNewChartRepository ''https://down.example.com'',
       EvDownloadIndexFile ''https://down.example.com'', EvUnlock,
       EvLocateChart ''stable/parseable'']"
    using sync
    by (simp add: Apply_def Apply_install_def Let_def acts ref idx)
  show ?thesis using sync a u t by simp
qed

section \<open>Claims about the download error\<close>

lemma update_msg_neq_invalid_msg: "update_msg env u \<noteq> invalid_msg env u"
proof
  assume "update_msg env u = invalid_msg env u"
  then have "length (update_msg env u) = length (invalid_msg env u)"
    by simp
  then show False
    by (simp add: update_msg_def invalid_msg_def)
qed

text \<open>
  C7. When every step before the download has passed and the download fails with the
  transport error \<open>e\<close>, \<open>repoAdd\<close> returns \<open>e\<close> wrapped in a message. For a name
  the index has, the message is \<open>looks like we are unable to update helm repo\<close>
  followed by the quoted URL; for a new name it is \<open>looks like\<close>, the quoted URL and
  \<open>is not a valid chart repository or cannot be reached\<close>; the two messages differ.
  The text of the error is the message, a colon and the text of \<open>e\<close>, and unwrapping
  gives \<open>e\<close>. A parse failure of the index file is returned bare, so the two errors
  are never equal.
\<close>

theorem repoAdd_download_error_wrapped:
  assumes "mkdir_passes env" and "snd (try_lock_context env) = None"
    and "read_fault env = None \<or> read_fault env = Some ErrNotExist"
    and "yaml_unmarshal env (read_bytes env w) = Inr f"
    and "new_chart_repository env \<lparr>Name = RepoName h, URL = RepoURL h\<rparr> = None"
    and "download_index_file env \<lparr>Name = RepoName h, URL = RepoURL h\<rparr> = Some e"
  shows "(Has f (RepoName h) \<longrightarrow>
            fst (repoAdd env h w) = Some (WithMessage (External e)
              (''looks like we are unable to update helm repo '' @ quote env (RepoURL h))))
    \<and> (\<not> Has f (RepoName h) \<longrightarrow>
            fst (repoAdd env h w) = Some (WithMessage (External e)
              (''looks like '' @ quote env (RepoURL h)
                 @ '' is not a valid chart repository or cannot be reached'')))
    \<and> ''looks like we are unable to update helm repo '' @ quote env (RepoURL h) \<noteq>
        ''looks like '' @ quote env (RepoURL h)
          @ '' is not a valid chart repository or cannot be reached''
    \<and> (\<exists>err msg. fst (repoAdd env h w) = Some err \<and> err = WithMessage (External e) msg
          \<and> Unwrap err = Some (External e)
          \<and> Error_text err = msg @ '': '' @ ext_text e)
    \<and> (yaml_unmarshal env (read_bytes env w') = Inl pe \<longrightarrow>
          fst (repoAdd env h' w') = Some (External pe)
          \<and> fst (repoAdd env h' w') \<noteq> fst (repoAdd env h w))"
proof -
  have res: "fst (repoAdd env h w) = Some (WithMessage (External e)
      (if Has f (RepoName h) then update_msg env (RepoURL h) else invalid_msg env (RepoURL h)))"
    using assms
    by (auto simp: repoAdd_defs mkdir_passes_def read_bytes_def os_IsNotExist_def
        split: option.splits prod.splits)
  have parse: "fst (repoAdd env h' w') = Some (External pe)"
    if "yaml_unmarshal env (read_bytes env w') = Inl pe"
    using assms(1,2,3) that
    by (auto simp: repoAdd_defs mkdir_passes_def read_bytes_def os_IsNotExist_def
        split: option.splits prod.splits)
  show ?thesis
    using res parse update_msg_neq_invalid_msg [of env "RepoURL h"]
    by (auto simp: update_msg_def invalid_msg_def)
qed

theorem repoAdd_download_error_wrapped_witness:
  "fst (repoAdd ex_env (ex_helm\<lparr>RepoURL := ''https://down.example.com''\<rparr>) w_stable) =
     Some (WithMessage (External (ErrOther ''connection refused''))
       (''looks like we are unable to update helm repo ''
          @ [CHR 0x22] @ ''https://down.example.com'' @ [CHR 0x22]))
   \<and> fst (repoAdd ex_env (ex_helm\<lparr>RepoURL := ''https://down.example.com''\<rparr>) w_empty) =
     Some (WithMessage (External (ErrOther ''connection refused''))
       (''looks like '' @ [CHR 0x22] @ ''https://down.example.com'' @ [CHR 0x22]
          @ '' is not a valid chart repository or cannot be reached''))
   \<and> fst (repoAdd ex_env ex_helm (w_empty\<lparr>index_file := Some ''{''\<rparr>)) =
     Some (External (ErrOther ''yaml: unmarshal errors''))"
proof -
  let ?h = "ex_helm\<lparr>RepoURL := ''https://down.example.com''\<rparr>"
  let ?bad = "w_empty\<lparr>index_file := Some ''{''\<rparr>"
  have p: "snd (try_lock_context ex_env) = None"
    "read_fault ex_env = None \<or> read_fault ex_env = Some ErrNotExist"
    "new_chart_repository ex_env \<lparr>Name = RepoName ?h, URL = RepoURL ?h\<rparr> = None"
    by simp_all
  have dl: "download_index_file ex_env \<lparr>Name = RepoName ?h, URL = RepoURL ?h\<rparr>
      = Some (ErrOther ''connection refused'')"
    by (simp add: ex_env_def)
  have r1: "yaml_unmarshal ex_env (read_bytes ex_env w_stable) = Inr ex_file"
    by (simp add: read_bytes_def os_ReadFile_def w_stable_def)
  have r2: "yaml_unmarshal ex_env (read_bytes ex_env w_empty) = Inr zero_File"
    by (simp add: read_bytes_def os_ReadFile_def w_empty_def)
  have r3: "yaml_unmarshal ex_env (read_bytes ex_env ?bad) = Inl (ErrOther ''yaml: unmarshal errors'')"
    by (simp add: read_bytes_def os_ReadFile_def w_empty_def ex_env_def ex_yaml_def)
  have h1: "Has ex_file (RepoName ?h)"
    by (simp add: ex_helm_def)
  have h2: "\<not> Has zero_File (RepoName ?h)"
    by (simp add: Has_def Get_def zero_File_def)
  have q: "quote ex_env s = [CHR 0x22] @ s @ [CHR 0x22]" for s
    by (simp add: ex_env_def)
  show ?thesis
    using repoAdd_download_error_wrapped
        [OF mkdir_passes_ex_env p(1,2) r1 p(3) dl, of ?bad _ ex_helm]
      repoAdd_download_error_wrapped
        [OF mkdir_passes_ex_env p(1,2) r2 p(3) dl, of ?bad _ ex_helm]
      h1 h2 r3
    by (simp add: q)
qed

section \<open>Claims about the HTTP client\<close>

text \<open>
  C8. Every request that \<open>NewRequest\<close> builds, for whatever method, path and body,
  has as its URL the parse of what \<open>url.JoinPath\<close> returns for the profile's base URL,
  the prefix \<open>api/v1/\<close> and the path (when the base URL parses, that is the join of the
  three), carries the header \<open>Authorization\<close> with \<open>Basic\<close> and the base64 of the
  profile's user name, a colon and its password, and the header \<open>Content-Type\<close> with
  the one value \<open>application/json\<close>; the method and the body are the ones given. The
  client of \<open>DefaultClient\<close> has the timeout of 60 seconds and the profile it was given.
\<close>

theorem NewRequest_builds_request:
  assumes "NewRequest e client method path body = Inr r"
  shows "url_Parse e (fst (url_JoinPath e (Profile_URL (Profile client)) [''api/v1/'', path]))
           = Inr (Request_URL r)
    \<and> (url_Parse e (Profile_URL (Profile client)) = Inr u \<longrightarrow>
          url_Parse e (url_join e u [''api/v1/'', path]) = Inr (Request_URL r))
    \<and> Header r ''Authorization'' =
          Some [''Basic '' @ base64 e (Username (Profile client) @ '':''
                  @ Password (Profile client))]
    \<and> Header r ''Content-Type'' = Some [''application/json'']
    \<and> Method r = (if method = [] then ''GET'' else method)
    \<and> Body r = body
    \<and> Timeout (Client (DefaultClient profile)) = 60 * Second
    \<and> 60 * Second = 60000000000
    \<and> Profile (DefaultClient profile) = profile"
  using assms
  by (auto simp: NewRequest_def http_NewRequest_def baseAPIURL_def url_JoinPath_def
      SetBasicAuth_def Header_Set_def Header_Add_def DefaultClient_def Second_def Let_def
      split: sum.splits option.splits prod.splits if_splits)

theorem NewRequest_builds_request_witness:
  "NewRequest ex_http_env (DefaultClient ex_profile) ''GET'' ''logstream'' None =
     Inr \<lparr>Method = ''GET'', Request_URL = ''http://localhost:8000/api/v1/logstream'',
          Header = [''Authorization'' \<mapsto> [''Basic b64(admin:secret)''],
                    ''Content-Type'' \<mapsto> [''application/json'']],
          Body = None\<rparr>
   \<and> Timeout (Client (DefaultClient ex_profile)) = 60000000000"
proof -
  have built: "NewRequest ex_http_env (DefaultClient ex_profile) ''GET'' ''logstream'' None =
     Inr \<lparr>Method = ''GET'', Request_URL = ''http://localhost:8000/api/v1/logstream'',
          Header = [''Authorization'' \<mapsto> [''Basic b64(admin:secret)''],
                    ''Content-Type'' \<mapsto> [''application/json'']],
          Body = None\<rparr>"
    by (simp add: NewRequest_def http_NewRequest_def baseAPIURL_def url_JoinPath_def
        SetBasicAuth_def Header_Set_def Header_Add_def DefaultClient_def Let_def
        ex_http_env_def ex_profile_def)
  show ?thesis
    using NewRequest_builds_request [OF built, of _ ex_profile] built
    by simp
qed

section \<open>Claims about the uninstall timeout\<close>




text \<open>
  C10. When the profile's base URL does not parse, \<open>url.JoinPath\<close> returns the empty
  string and the error, \<open>baseAPIURL\<close> drops the error and returns the empty string, and
  \<open>NewRequest\<close> does what it does for the empty URL: it returns an error exactly when
  \<open>http.NewRequest\<close> on the empty URL returns that error, and otherwise a request
  whose URL is the parse of the empty string.
\<close>

theorem NewRequest_join_failure_silent:
  assumes "url_Parse e (Profile_URL (Profile client)) = Inl err"
  shows "url_JoinPath e (Profile_URL (Profile client)) [''api/v1/'', path] = ([], Some err)
    \<and> baseAPIURL e client path = []
    \<and> (\<forall>x. NewRequest e client method path body = Inl x
             \<longleftrightarrow> http_NewRequest e method [] body = Inl x)
    \<and> (\<forall>req. http_NewRequest e method [] body = Inr req \<longrightarrow>
          (\<exists>r. NewRequest e client method path body = Inr r
             \<and> Request_URL r = Request_URL req
             \<and> url_Parse e [] = Inr (Request_URL r)))"
  using assms
  by (auto simp: NewRequest_def http_NewRequest_def baseAPIURL_def url_JoinPath_def
      SetBasicAuth_def Let_def split: sum.splits option.splits)

theorem NewRequest_join_failure_silent_witness:
  "baseAPIURL ex_http_env (DefaultClient (ex_profile\<lparr>Profile_URL := ''://bad''\<rparr>))
     ''logstream'' = []
   \<and> \<not> isl (NewRequest ex_http_env (DefaultClient (ex_profile\<lparr>Profile_URL := ''://bad''\<rparr>))
        ''GET'' ''logstream'' None)
   \<and> Request_URL (projr (NewRequest ex_http_env
        (DefaultClient (ex_profile\<lparr>Profile_URL := ''://bad''\<rparr>)) ''GET'' ''logstream'' None))
      = []"
proof -
  let ?client = "DefaultClient (ex_profile\<lparr>Profile_URL := ''://bad''\<rparr>)"
  have bad: "url_Parse ex_http_env (Profile_URL (Profile ?client))
      = Inl (ErrOther ''missing protocol scheme'')"
    by (simp add: ex_http_env_def DefaultClient_def)
  have empty: "http_NewRequest ex_http_env ''GET'' [] None =
      Inr \<lparr>Method = ''GET'', Request_URL = [], Header = Map.empty, Body = None\<rparr>"
    by (simp add: http_NewRequest_def ex_http_env_def)
  show ?thesis
    using NewRequest_join_failure_silent [OF bad, of "''logstream''" "''GET''" None] empty
    by auto
qed

end
